theory Spec2Isabelle
  imports Main
begin

section \<open>Data model\<close>

text \<open>
  Modelled from the spec: the struct declarations \<^verbatim>\<open>RunConfigurationEntry\<close>,
  \<^verbatim>\<open>ProjectConfigrationFile\<close> and \<^verbatim>\<open>PropertyConfigurationFile\<close> are used by
  \<^verbatim>\<open>pkg/config/config.go\<close> but declared in a file that is not part of the sources at
  hand. The fields are those of the spec's data model (name, image, tag, directory,
  shell, provides, scope); \<^verbatim>\<open>config.go\<close> reads \<^verbatim>\<open>Name\<close>, \<^verbatim>\<open>Provides\<close>, \<^verbatim>\<open>Scope\<close> and
  \<^verbatim>\<open>Images\<close>, \<^verbatim>\<open>app.go\<close> reads \<^verbatim>\<open>Image\<close>, \<^verbatim>\<open>Tag\<close>, \<^verbatim>\<open>Directory\<close> and \<^verbatim>\<open>Shell\<close>.
  The scope is a Go string (\<^verbatim>\<open>"Project"\<close> or \<^verbatim>\<open>"Global"\<close>), the properties a
  \<^verbatim>\<open>map[string]string\<close>.
\<close>

record RunConfigurationEntry =
  Name :: string
  Image :: string
  Tag :: string
  Directory :: string
  Shell :: string
  Provides :: "string list"
  Scope :: string

record ProjectConfigrationFile =
  Images :: "RunConfigurationEntry list"

record PropertyConfigurationFile =
  Properties :: "string \<rightharpoonup> string"

text \<open>
  Go errors. The two errors \<^verbatim>\<open>config.go\<close> creates itself carry a fixed message
  (\<^verbatim>\<open>didn't find a envcli project config in any parent directories\<close>, and
  \<^verbatim>\<open>no configuration for command <name> found\<close>); every error of the libraries
  (\<^verbatim>\<open>os\<close>, \<^verbatim>\<open>configor\<close>, \<^verbatim>\<open>yaml\<close>, \<^verbatim>\<open>ioutil\<close>) is opaque.
\<close>

datatype error =
    NoProjectConfigFound
  | NoConfigurationForCommand string
  | LibraryError string

text \<open>
  The outcome of \<^verbatim>\<open>os.Stat\<close>, as far as the code looks at it: \<^verbatim>\<open>err == nil\<close>,
  \<^verbatim>\<open>os.IsNotExist(err)\<close>, or any other error.
\<close>

datatype stat_result = StatOk | StatNotExist | StatError

text \<open>
  The outcome of \<^verbatim>\<open>ioutil.WriteFile\<close>. It opens the file with \<^verbatim>\<open>O_CREATE\<close> and \<^verbatim>\<open>O_TRUNC\<close>,
  writes, and closes. When the open fails the file is as it was. When the write or the
  close fails the file exists and has lost what it held; \<open>WriteFailed\<close> carries, with the
  error, what \<^verbatim>\<open>configor\<close> loads from what is left of it.
\<close>

datatype 'doc write_result =
    WriteOk
  | OpenFailed error
  | WriteFailed error "'doc \<times> error option"

section \<open>The environment of the program\<close>

text \<open>
  Everything the code asks of the operating system and of its libraries is a field of
  the world it runs in. The path functions depend on the platform
  (\<^verbatim>\<open>os.PathSeparator\<close>, \<^verbatim>\<open>filepath.Dir\<close>, \<^verbatim>\<open>filepath.Join\<close>); the file system answers
  \<^verbatim>\<open>os.Stat\<close>; \<^verbatim>\<open>configorLoadProject\<close> and \<^verbatim>\<open>configorLoadProperty\<close> give, for a path,
  the record that \<^verbatim>\<open>configor.New(..).Load(&cfg, path)\<close> leaves in \<^verbatim>\<open>cfg\<close> together
  with the error it returns (the property record starts from an empty map);
  \<^verbatim>\<open>yamlMarshal\<close> gives the error of \<^verbatim>\<open>yaml.Marshal\<close>, if any, and \<^verbatim>\<open>WriteFile\<close> the
  outcome of \<^verbatim>\<open>ioutil.WriteFile\<close> for a path and the document to be written.
\<close>

record world =
  WorkingDirectory :: string
  ExecutionDirectory :: string
  PathSeparator :: char
  Dir :: "string \<Rightarrow> string"
  Join :: "string \<Rightarrow> string \<Rightarrow> string"
  Stat :: "string \<Rightarrow> stat_result"
  configorLoadProject :: "string \<Rightarrow> ProjectConfigrationFile \<times> error option"
  configorLoadProperty :: "string \<Rightarrow> PropertyConfigurationFile \<times> error option"
  yamlMarshal :: "PropertyConfigurationFile \<Rightarrow> error option"
  WriteFile :: "string \<Rightarrow> PropertyConfigurationFile \<Rightarrow> PropertyConfigurationFile write_result"

section \<open>Library functions\<close>

text \<open>
  \<^verbatim>\<open>strings.Split(s, sep)\<close> for a separator of one character: the pieces of \<^verbatim>\<open>s\<close>
  between the separators, one piece more than there are separators.
\<close>

fun Split :: "string \<Rightarrow> char \<Rightarrow> string list" where
  "Split [] sep = [[]]"
| "Split (c # cs) sep =
     (if c = sep then [] # Split cs sep
      else (case Split cs sep of [] \<Rightarrow> [[c]] | p # ps \<Rightarrow> (c # p) # ps))"

text \<open>
  \<^verbatim>\<open>collection.InArray\<close> and \<^verbatim>\<open>collection.MapGetValueOrDefault\<close> belong to the library
  \<^verbatim>\<open>cidverseutils\<close>, whose code is not among the sources; they are taken by their names
  and their use: membership in a slice (the second result, the index, is dropped by every
  caller), and the value stored under a key or else the default. No theorem below
  depends on what \<^verbatim>\<open>MapGetValueOrDefault\<close> returns for a key that is stored with an empty
  value.
\<close>

definition InArray :: "string \<Rightarrow> string list \<Rightarrow> bool" where
  "InArray needle haystack = (needle \<in> set haystack)"

definition MapGetValueOrDefault :: "(string \<rightharpoonup> string) \<Rightarrow> string \<Rightarrow> string \<Rightarrow> string" where
  "MapGetValueOrDefault entity key defaultValue =
     (case entity key of Some val \<Rightarrow> val | None \<Rightarrow> defaultValue)"

text \<open>Reading a Go \<^verbatim>\<open>map[string]string\<close> at a key: the zero value for a missing key.\<close>

definition mapIndex :: "(string \<rightharpoonup> string) \<Rightarrow> string \<Rightarrow> string" where
  "mapIndex m key = (case m key of Some val \<Rightarrow> val | None \<Rightarrow> [])"

section \<open>\<^verbatim>\<open>pkg/config/config.go\<close>\<close>

definition defaultConfigurationDirectory :: "world \<Rightarrow> string" where
  "defaultConfigurationDirectory w = ExecutionDirectory w"

definition defaultConfigurationFile :: string where
  "defaultConfigurationFile = ''.envclirc''"

definition validConfigurationOptions :: "string list" where
  "validConfigurationOptions =
     [''http-proxy'', ''https-proxy'', ''global-configuration-path'', ''cache-path'',
      ''last-update-check'']"

definition LoadProjectConfig :: "world \<Rightarrow> string \<Rightarrow> ProjectConfigrationFile \<times> error option" where
  "LoadProjectConfig w configFile =
     (if Stat w configFile = StatNotExist then (\<lparr>Images = []\<rparr>, None)
      else (fst (configorLoadProject w configFile), None))"

definition LoadPropertyConfigFile :: "world \<Rightarrow> string \<Rightarrow> PropertyConfigurationFile \<times> error option" where
  "LoadPropertyConfigFile w configFile =
     (if Stat w configFile = StatNotExist then (\<lparr>Properties = Map.empty\<rparr>, None)
      else (fst (configorLoadProperty w configFile), None))"

definition propertyConfigPath :: "world \<Rightarrow> string" where
  "propertyConfigPath w = defaultConfigurationDirectory w @ ''/'' @ defaultConfigurationFile"

definition LoadPropertyConfig :: "world \<Rightarrow> PropertyConfigurationFile \<times> error option" where
  "LoadPropertyConfig w = LoadPropertyConfigFile w (propertyConfigPath w)"

text \<open>
  Saving returns the world after the call and the error. A save that fails at
  \<^verbatim>\<open>yaml.Marshal\<close> or at the open leaves the world as it was; one that fails after the
  open leaves the truncated file. One thing is taken for granted about the libraries,
  and every property of a value read after a save rests on it: a document that was
  written without an error is what \<^verbatim>\<open>configor\<close> loads from that path from then on
  (\<^verbatim>\<open>yaml.Marshal\<close> and the loader agree, and the file can be read). What the project
  loader would make of the written file is left as it was: no property below reads a
  property file as a project document.
\<close>

definition SavePropertyConfigFile ::
  "world \<Rightarrow> string \<Rightarrow> PropertyConfigurationFile \<Rightarrow> world \<times> error option" where
  "SavePropertyConfigFile w configFile cfg =
     (case yamlMarshal w cfg of
        Some err \<Rightarrow> (w, Some err)
      | None \<Rightarrow>
          (case WriteFile w configFile cfg of
             OpenFailed err \<Rightarrow> (w, Some err)
           | WriteFailed err leftover \<Rightarrow>
               (w\<lparr>Stat := (Stat w)(configFile := StatOk),
                   configorLoadProperty := (configorLoadProperty w)(configFile := leftover)\<rparr>,
                Some err)
           | WriteOk \<Rightarrow>
               (w\<lparr>Stat := (Stat w)(configFile := StatOk),
                   configorLoadProperty := (configorLoadProperty w)(configFile := (cfg, None))\<rparr>,
                None)))"

definition SavePropertyConfig :: "world \<Rightarrow> PropertyConfigurationFile \<Rightarrow> world \<times> error option" where
  "SavePropertyConfig w cfg = SavePropertyConfigFile w (propertyConfigPath w) cfg"

definition SetPropertyConfigEntry :: "world \<Rightarrow> string \<Rightarrow> string \<Rightarrow> world" where
  "SetPropertyConfigEntry w varName varValue =
     (let propConfig = fst (LoadPropertyConfig w) in
      if InArray varName validConfigurationOptions
      then fst (SavePropertyConfig w
                  (propConfig\<lparr>Properties := (Properties propConfig)(varName \<mapsto> varValue)\<rparr>))
      else w)"

definition GetPropertyConfigEntry :: "world \<Rightarrow> string \<Rightarrow> string" where
  "GetPropertyConfigEntry w varName =
     (let propConfig = fst (LoadPropertyConfig w) in
      if InArray varName validConfigurationOptions
      then mapIndex (Properties propConfig) varName
      else [])"

definition UnsetPropertyConfigEntry :: "world \<Rightarrow> string \<Rightarrow> world" where
  "UnsetPropertyConfigEntry w varName =
     (let propConfig = fst (LoadPropertyConfig w) in
      if InArray varName validConfigurationOptions
      then fst (SavePropertyConfig w
                  (propConfig\<lparr>Properties := (Properties propConfig)(varName \<mapsto> [])\<rparr>))
      else w)"

text \<open>
  The save inside \<^verbatim>\<open>SetPropertyConfigEntry(varName, varValue)\<close> returns no error. The code
  drops that error.
\<close>

definition savedBy :: "world \<Rightarrow> string \<Rightarrow> string \<Rightarrow> bool" where
  "savedBy w varName varValue =
     (snd (SavePropertyConfig w
        ((fst (LoadPropertyConfig w))
           \<lparr>Properties := (Properties (fst (LoadPropertyConfig w)))(varName \<mapsto> varValue)\<rparr>)) = None)"

text \<open>
  The save inside \<^verbatim>\<open>SetPropertyConfigEntry(varName, varValue)\<close> does not fail after the file
  was opened: it succeeds, or it fails at \<^verbatim>\<open>yaml.Marshal\<close> or at the open.
\<close>

definition fileIntact :: "world \<Rightarrow> string \<Rightarrow> string \<Rightarrow> bool" where
  "fileIntact w varName varValue =
     (let cfg = (fst (LoadPropertyConfig w))
                  \<lparr>Properties := (Properties (fst (LoadPropertyConfig w)))(varName \<mapsto> varValue)\<rparr>
      in case yamlMarshal w cfg of
           Some err \<Rightarrow> True
         | None \<Rightarrow>
             (case WriteFile w (propertyConfigPath w) cfg of
                WriteFailed err leftover \<Rightarrow> False
              | OpenFailed err \<Rightarrow> True
              | WriteOk \<Rightarrow> True))"

text \<open>
  The property file is absent, or \<^verbatim>\<open>configor\<close> loads it without an error: the mapping that
  \<^verbatim>\<open>LoadPropertyConfig\<close> returns is then the mapping the file holds. For a file that is
  there and cannot be parsed the loader's error is dropped and the mapping returned is
  only what the loader made of it.
\<close>

definition loadsCleanly :: "world \<Rightarrow> bool" where
  "loadsCleanly w =
     (Stat w (propertyConfigPath w) = StatNotExist
      \<or> snd (configorLoadProperty w (propertyConfigPath w)) = None)"

subsection \<open>\<^verbatim>\<open>GetProjectDirectory\<close>\<close>

text \<open>
  The test at the head of the loop: \<^verbatim>\<open>os.Stat(filepath.Join(currentDirectory,
  "/.envcli.yml"))\<close> returns no error.
\<close>

definition markerFound :: "world \<Rightarrow> string \<Rightarrow> bool" where
  "markerFound w currentDirectory = (Stat w (Join w currentDirectory ''/.envcli.yml'') = StatOk)"

text \<open>
  The second test: \<^verbatim>\<open>directoryParts[0]+"\\" == currentDirectory || currentDirectory == "/"\<close>.
  The Go literal \<^verbatim>\<open>"\\"\<close> is one backslash, the character \<open>0x5C\<close>. \<^verbatim>\<open>strings.Split\<close>
  never returns an empty slice (lemma \<open>Split_not_Nil\<close>), so \<^verbatim>\<open>directoryParts[0]\<close> is
  always there.
\<close>

definition rootReached :: "string list \<Rightarrow> string \<Rightarrow> bool" where
  "rootReached directoryParts currentDirectory =
     (hd directoryParts @ [CHR 0x5C] = currentDirectory \<or> currentDirectory = ''/'')"

text \<open>
  The loop \<^verbatim>\<open>for projectDirectory == ""\<close>: the variable is never assigned, so the loop
  ends only through one of its two \<^verbatim>\<open>return\<close>s. A walk that never returns is \<open>None\<close>.
\<close>

partial_function (option) searchProjectDirectory ::
  "world \<Rightarrow> string list \<Rightarrow> string \<Rightarrow> (error + string) option" where
  "searchProjectDirectory w directoryParts currentDirectory =
     (if markerFound w currentDirectory then Some (Inr currentDirectory)
      else if rootReached directoryParts currentDirectory then Some (Inl NoProjectConfigFound)
      else searchProjectDirectory w directoryParts (Dir w currentDirectory))"

definition GetProjectDirectory :: "world \<Rightarrow> (error + string) option" where
  "GetProjectDirectory w =
     searchProjectDirectory w (Split (WorkingDirectory w) (PathSeparator w)) (WorkingDirectory w)"

text \<open>The directory the walk looks at after \<open>n\<close> steps upwards.\<close>

definition ancestor :: "world \<Rightarrow> nat \<Rightarrow> string" where
  "ancestor w n = (Dir w ^^ n) (WorkingDirectory w)"

definition atRoot :: "world \<Rightarrow> string \<Rightarrow> bool" where
  "atRoot w currentDirectory =
     rootReached (Split (WorkingDirectory w) (PathSeparator w)) currentDirectory"

subsection \<open>\<^verbatim>\<open>MergeConfigurations\<close> and \<^verbatim>\<open>GetCommandConfiguration\<close>\<close>

definition MergeConfigurations ::
  "ProjectConfigrationFile \<Rightarrow> ProjectConfigrationFile \<Rightarrow> ProjectConfigrationFile" where
  "MergeConfigurations configProject configGlobal =
     \<lparr>Images = map (\<lambda>image. image\<lparr>Scope := ''Project''\<rparr>) (Images configProject)
              @ map (\<lambda>image. image\<lparr>Scope := ''Global''\<rparr>) (Images configGlobal)\<rparr>"

text \<open>The path of the global configuration (lines 195 to 197).\<close>

definition globalConfigFile :: "world \<Rightarrow> PropertyConfigurationFile \<Rightarrow> string" where
  "globalConfigFile w propConfig =
     MapGetValueOrDefault (Properties propConfig) ''global-configuration-path''
       (defaultConfigurationDirectory w) @ ''/.envcli.yml''"

text \<open>The list of configuration files (lines 185 to 197), given what the locator returned.\<close>

definition configFileList ::
  "world \<Rightarrow> PropertyConfigurationFile \<Rightarrow> error + string \<Rightarrow> string list \<Rightarrow> string list" where
  "configFileList w propConfig projectDirResult customIncludes =
     (case projectDirResult of
        Inr projectDir \<Rightarrow> [projectDir @ ''/.envcli.yml'']
      | Inl projectDirErr \<Rightarrow> [])
     @ customIncludes
     @ [globalConfigFile w propConfig]"

text \<open>The loop that loads and merges the files (lines 200 to 204).\<close>

definition loadConfigurationFiles :: "world \<Rightarrow> string list \<Rightarrow> ProjectConfigrationFile" where
  "loadConfigurationFiles w configFiles =
     foldl (\<lambda>finalConfiguration configFile.
              MergeConfigurations finalConfiguration (fst (LoadProjectConfig w configFile)))
       \<lparr>Images = []\<rparr> configFiles"

text \<open>The inner loop over \<^verbatim>\<open>element.Provides\<close> (lines 209 to 215).\<close>

fun providesCommand :: "string list \<Rightarrow> string \<Rightarrow> bool" where
  "providesCommand [] commandName = False"
| "providesCommand (providedCommand # rest) commandName =
     (if providedCommand = commandName then True else providesCommand rest commandName)"

text \<open>The search for the command definition (lines 207 to 220).\<close>

fun searchCommandDefinition ::
  "RunConfigurationEntry list \<Rightarrow> string \<Rightarrow> error + RunConfigurationEntry" where
  "searchCommandDefinition [] commandName = Inl (NoConfigurationForCommand commandName)"
| "searchCommandDefinition (element # rest) commandName =
     (if providesCommand (Provides element) commandName then Inr element
      else searchCommandDefinition rest commandName)"

text \<open>
  \<^verbatim>\<open>GetCommandConfiguration\<close>. The parameter \<^verbatim>\<open>currentDirectory\<close> is not used by the
  code: the locator starts from the working directory of the process. The result is
  \<open>None\<close> when the locator never returns.
\<close>

definition GetCommandConfiguration ::
  "world \<Rightarrow> string \<Rightarrow> string \<Rightarrow> string list \<Rightarrow> (error + RunConfigurationEntry) option" where
  "GetCommandConfiguration w commandName currentDirectory customIncludes =
     (case LoadPropertyConfig w of
        (propConfig, Some propConfigErr) \<Rightarrow> Some (Inl propConfigErr)
      | (propConfig, None) \<Rightarrow>
          (case GetProjectDirectory w of
             None \<Rightarrow> None
           | Some projectDirResult \<Rightarrow>
               Some (searchCommandDefinition
                       (Images (loadConfigurationFiles w
                                  (configFileList w propConfig projectDirResult customIncludes)))
                       commandName)))"

section \<open>\<^verbatim>\<open>src/app.go\<close>: the matching loop of the \<^verbatim>\<open>run\<close> action\<close>

text \<open>
  Lines 99 to 120: four variables, assigned at every match of the two nested loops, and
  the test \<^verbatim>\<open>dockerImage == ""\<close> after them. The entries are \<^verbatim>\<open>config.Commands\<close>.
\<close>

record runTarget =
  dockerImage :: string
  dockerImageTag :: string
  projectDirectory :: string
  commandShell :: string

definition runMatchProvided ::
  "string \<Rightarrow> RunConfigurationEntry \<Rightarrow> runTarget \<Rightarrow> string \<Rightarrow> runTarget" where
  "runMatchProvided commandName element target providedCommand =
     (if providedCommand = commandName
      then \<lparr>dockerImage = Image element, dockerImageTag = Tag element,
            projectDirectory = Directory element, commandShell = Shell element\<rparr>
      else target)"

definition runMatchCommands :: "RunConfigurationEntry list \<Rightarrow> string \<Rightarrow> runTarget" where
  "runMatchCommands commands commandName =
     foldl (\<lambda>target element. foldl (runMatchProvided commandName element) target (Provides element))
       \<lparr>dockerImage = [], dockerImageTag = [], projectDirectory = [], commandShell = []\<rparr>
       commands"

definition runResolve :: "RunConfigurationEntry list \<Rightarrow> string \<Rightarrow> runTarget option" where
  "runResolve commands commandName =
     (let target = runMatchCommands commands commandName in
      if dockerImage target = [] then None else Some target)"

section \<open>Go's \<^verbatim>\<open>path/filepath\<close> where the separator is \<^verbatim>\<open>/\<close>\<close>

text \<open>
  \<^verbatim>\<open>filepath.Clean\<close> on a platform without volume names: empty elements and \<^verbatim>\<open>.\<close> are
  dropped, \<^verbatim>\<open>..\<close> removes the element before it (at the root it is dropped, at the
  start of a path that is not rooted it is kept), the result has no slash at its end
  unless it is the root, and the empty path becomes \<^verbatim>\<open>.\<close>. The elements kept so far
  are held in reverse.
\<close>

fun cleanElements :: "bool \<Rightarrow> string list \<Rightarrow> string list \<Rightarrow> string list" where
  "cleanElements rooted out [] = rev out"
| "cleanElements rooted out (e # es) =
     (if e = [] \<or> e = ''.'' then cleanElements rooted out es
      else if e = ''..'' then
        (case out of
           [] \<Rightarrow> if rooted then cleanElements rooted [] es else cleanElements rooted [''..''] es
         | seen # kept \<Rightarrow>
             if seen = ''..''
             then (if rooted then cleanElements rooted out es
                   else cleanElements rooted (''..'' # out) es)
             else cleanElements rooted kept es)
      else cleanElements rooted (e # out) es)"

fun joinElements :: "string list \<Rightarrow> string" where
  "joinElements [] = []"
| "joinElements [e] = e"
| "joinElements (e # es) = e @ CHR ''/'' # joinElements es"

definition isRooted :: "string \<Rightarrow> bool" where
  "isRooted path = (case path of [] \<Rightarrow> False | c # cs \<Rightarrow> c = CHR ''/'')"

definition unixClean :: "string \<Rightarrow> string" where
  "unixClean path =
     (let out = (if isRooted path then ''/'' else [])
                @ joinElements (cleanElements (isRooted path) [] (Split path (CHR ''/'')))
      in if out = [] then ''.'' else out)"

text \<open>\<^verbatim>\<open>filepath.Dir\<close>: the path up to and with its last separator, cleaned.\<close>

definition unixDir :: "string \<Rightarrow> string" where
  "unixDir path = unixClean (rev (dropWhile (\<lambda>c. c \<noteq> CHR ''/'') (rev path)))"

text \<open>\<^verbatim>\<open>filepath.Join\<close> of two elements: empty elements are ignored, the rest is cleaned.\<close>

definition unixJoin :: "string \<Rightarrow> string \<Rightarrow> string" where
  "unixJoin a b =
     (if a \<noteq> [] then unixClean (a @ ''/'' @ b)
      else if b \<noteq> [] then unixClean b
      else [])"

section \<open>Example worlds\<close>

definition buildA :: RunConfigurationEntry where
  "buildA = \<lparr>Name = ''first'', Image = ''A'', Tag = ''1'', Directory = ''/project'',
             Shell = ''sh'', Provides = [''make'', ''build''], Scope = []\<rparr>"

definition buildB :: RunConfigurationEntry where
  "buildB = \<lparr>Name = ''second'', Image = ''B'', Tag = ''2'', Directory = ''/project'',
             Shell = ''sh'', Provides = [''build''], Scope = []\<rparr>"

definition lintC :: RunConfigurationEntry where
  "lintC = \<lparr>Name = ''third'', Image = ''C'', Tag = ''3'', Directory = ''/project'',
            Shell = ''sh'', Provides = [''lint''], Scope = []\<rparr>"

text \<open>
  A '/'-separated file system: the process runs in \<^verbatim>\<open>/p/q\<close>, the tool is installed in
  \<^verbatim>\<open>/x\<close>. \<^verbatim>\<open>/p\<close> and \<^verbatim>\<open>/\<close> hold a marker file; the project document in \<^verbatim>\<open>/p\<close>
  declares \<^verbatim>\<open>build\<close> for image \<^verbatim>\<open>A\<close>, the global document in \<^verbatim>\<open>/x\<close> declares it for
  image \<^verbatim>\<open>B\<close>, \<^verbatim>\<open>/inc.yml\<close> declares \<^verbatim>\<open>lint\<close>, \<^verbatim>\<open>/bad.yml\<close> exists and cannot be
  parsed, and there is no property file.
\<close>

definition exampleWorld :: world where
  "exampleWorld =
     \<lparr>WorkingDirectory = ''/p/q'',
      ExecutionDirectory = ''/x'',
      PathSeparator = CHR ''/'',
      Dir = unixDir,
      Join = unixJoin,
      Stat = (\<lambda>path. if path = ''/p/.envcli.yml'' \<or> path = ''/.envcli.yml''
                         \<or> path = ''/x/.envcli.yml'' \<or> path = ''/inc.yml''
                         \<or> path = ''/bad.yml''
                      then StatOk else StatNotExist),
      configorLoadProject =
        (\<lambda>path. if path = ''/p/.envcli.yml'' then (\<lparr>Images = [buildA]\<rparr>, None)
               else if path = ''/x/.envcli.yml'' then (\<lparr>Images = [buildB]\<rparr>, None)
               else if path = ''/inc.yml'' then (\<lparr>Images = [lintC]\<rparr>, None)
               else (\<lparr>Images = []\<rparr>, Some (LibraryError ''cannot unmarshal''))),
      configorLoadProperty =
        (\<lambda>path. (\<lparr>Properties = Map.empty\<rparr>, Some (LibraryError ''cannot unmarshal''))),
      yamlMarshal = (\<lambda>cfg. None),
      WriteFile = (\<lambda>path cfg. WriteOk)\<rparr>"

text \<open>The same file system, mounted so that no file can be written.\<close>

definition readOnlyWorld :: world where
  "readOnlyWorld =
     exampleWorld\<lparr>WriteFile := (\<lambda>path cfg. OpenFailed (LibraryError ''permission denied''))\<rparr>"

text \<open>\<^verbatim>\<open>http-proxy\<close> was set while the file system could be written, then it became read-only.\<close>

definition staleWorld :: world where
  "staleWorld =
     (SetPropertyConfigEntry exampleWorld ''http-proxy'' ''proxy'')
       \<lparr>WriteFile := (\<lambda>path cfg. OpenFailed (LibraryError ''permission denied''))\<rparr>"

text \<open>
  \<^verbatim>\<open>http-proxy\<close> was set, then the disk ran full: the property file can be opened, and
  truncated, but nothing can be written to it. An empty file loads as the empty mapping.
\<close>

definition fullDiskWorld :: world where
  "fullDiskWorld =
     (SetPropertyConfigEntry exampleWorld ''http-proxy'' ''proxy'')
       \<lparr>WriteFile := (\<lambda>path cfg. WriteFailed (LibraryError ''no space left on device'')
                                     (\<lparr>Properties = Map.empty\<rparr>, None))\<rparr>"

text \<open>
  A Windows process whose working directory is the share \<^verbatim>\<open>\\host\share\a\<close>, with no
  marker file anywhere. \<^verbatim>\<open>filepath.Dir\<close> and \<^verbatim>\<open>filepath.Join\<close> are given at the two
  directories the walk visits: on Windows the parent of \<^verbatim>\<open>\\host\share\a\<close> is
  \<^verbatim>\<open>\\host\share\\<close>, and the parent of \<^verbatim>\<open>\\host\share\\<close> is \<^verbatim>\<open>\\host\share\\<close> itself (a
  volume name has no parent).
\<close>

definition uncShare :: string where
  "uncShare = [CHR 0x5C, CHR 0x5C] @ ''host'' @ [CHR 0x5C] @ ''share'' @ [CHR 0x5C]"

definition uncStart :: string where
  "uncStart = uncShare @ ''a''"

definition uncWorld :: world where
  "uncWorld =
     \<lparr>WorkingDirectory = uncStart,
      ExecutionDirectory = ''C:'' @ [CHR 0x5C] @ ''envcli'',
      PathSeparator = CHR 0x5C,
      Dir = (\<lambda>path. if path = uncStart then uncShare
                     else if path = uncShare then uncShare
                     else path),
      Join = (\<lambda>a b. if a = uncStart then uncStart @ [CHR 0x5C] @ ''.envcli.yml''
                     else if a = uncShare then uncShare @ ''.envcli.yml''
                     else a @ b),
      Stat = (\<lambda>path. StatNotExist),
      configorLoadProject = (\<lambda>path. (\<lparr>Images = []\<rparr>, None)),
      configorLoadProperty = (\<lambda>path. (\<lparr>Properties = Map.empty\<rparr>, None)),
      yamlMarshal = (\<lambda>cfg. None),
      WriteFile = (\<lambda>path cfg. WriteOk)\<rparr>"

section \<open>Properties of the library functions and of the walk\<close>

lemma Split_not_Nil: "Split s sep \<noteq> []"
  by (induction s) (auto split: list.splits)

lemma hd_Split: "hd (Split s sep) = takeWhile (\<lambda>c. c \<noteq> sep) s"
  by (induction s) (auto split: list.splits simp: Split_not_Nil)

lemma search_found:
  assumes "markerFound w ((Dir w ^^ n) cur)"
    and "\<And>m. m < n \<Longrightarrow> \<not> markerFound w ((Dir w ^^ m) cur) \<and> \<not> rootReached parts ((Dir w ^^ m) cur)"
  shows "searchProjectDirectory w parts cur = Some (Inr ((Dir w ^^ n) cur))"
  using assms
proof (induction n arbitrary: cur)
  case 0
  then show ?case by (simp add: searchProjectDirectory.simps)
next
  case (Suc n)
  have step: "\<not> markerFound w cur \<and> \<not> rootReached parts cur"
    using Suc.prems(2) [of 0] by simp
  have "searchProjectDirectory w parts (Dir w cur) = Some (Inr ((Dir w ^^ n) (Dir w cur)))"
  proof (rule Suc.IH)
    show "markerFound w ((Dir w ^^ n) (Dir w cur))"
      using Suc.prems(1) by (simp add: funpow_swap1)
    show "\<not> markerFound w ((Dir w ^^ m) (Dir w cur)) \<and> \<not> rootReached parts ((Dir w ^^ m) (Dir w cur))"
      if "m < n" for m
      using Suc.prems(2) [of "Suc m"] that by (simp add: funpow_swap1)
  qed
  then show ?case
    using step by (subst searchProjectDirectory.simps) (simp add: funpow_swap1)
qed

lemma search_not_found:
  assumes "rootReached parts ((Dir w ^^ n) cur)"
    and "\<not> markerFound w ((Dir w ^^ n) cur)"
    and "\<And>m. m < n \<Longrightarrow> \<not> markerFound w ((Dir w ^^ m) cur) \<and> \<not> rootReached parts ((Dir w ^^ m) cur)"
  shows "searchProjectDirectory w parts cur = Some (Inl NoProjectConfigFound)"
  using assms
proof (induction n arbitrary: cur)
  case 0
  then show ?case by (simp add: searchProjectDirectory.simps)
next
  case (Suc n)
  have step: "\<not> markerFound w cur \<and> \<not> rootReached parts cur"
    using Suc.prems(3) [of 0] by simp
  have "searchProjectDirectory w parts (Dir w cur) = Some (Inl NoProjectConfigFound)"
  proof (rule Suc.IH)
    show "rootReached parts ((Dir w ^^ n) (Dir w cur))"
      using Suc.prems(1) by (simp add: funpow_swap1)
    show "\<not> markerFound w ((Dir w ^^ n) (Dir w cur))"
      using Suc.prems(2) by (simp add: funpow_swap1)
    show "\<not> markerFound w ((Dir w ^^ m) (Dir w cur)) \<and> \<not> rootReached parts ((Dir w ^^ m) (Dir w cur))"
      if "m < n" for m
      using Suc.prems(3) [of "Suc m"] that by (simp add: funpow_swap1)
  qed
  then show ?case
    using step by (subst searchProjectDirectory.simps) simp
qed

lemma search_returns_stop:
  assumes "searchProjectDirectory w parts cur = Some r"
  shows "\<exists>n. markerFound w ((Dir w ^^ n) cur) \<or> rootReached parts ((Dir w ^^ n) cur)"
proof (rule searchProjectDirectory.raw_induct
    [where P = "\<lambda>w parts cur r. \<exists>n. markerFound w ((Dir w ^^ n) cur) \<or> rootReached parts ((Dir w ^^ n) cur)",
      OF _ assms])
  fix rec :: "world \<Rightarrow> string list \<Rightarrow> string \<Rightarrow> (error + string) option"
    and w parts cur r
  assume IH: "\<And>w parts cur r. rec w parts cur = Some r \<Longrightarrow>
      \<exists>n. markerFound w ((Dir w ^^ n) cur) \<or> rootReached parts ((Dir w ^^ n) cur)"
    and body: "(if markerFound w cur then Some (Inr cur)
      else if rootReached parts cur then Some (Inl NoProjectConfigFound)
      else rec w parts (Dir w cur)) = Some r"
  show "\<exists>n. markerFound w ((Dir w ^^ n) cur) \<or> rootReached parts ((Dir w ^^ n) cur)"
  proof (cases "markerFound w cur \<or> rootReached parts cur")
    case True
    then have "markerFound w ((Dir w ^^ 0) cur) \<or> rootReached parts ((Dir w ^^ 0) cur)" by simp
    then show ?thesis by blast
  next
    case False
    then have "rec w parts (Dir w cur) = Some r" using body by simp
    then obtain n where "markerFound w ((Dir w ^^ n) (Dir w cur)) \<or> rootReached parts ((Dir w ^^ n) (Dir w cur))"
      using IH by blast
    then have "markerFound w ((Dir w ^^ Suc n) cur) \<or> rootReached parts ((Dir w ^^ Suc n) cur)"
      by (simp add: funpow_swap1)
    then show ?thesis by blast
  qed
qed

lemma search_diverges:
  assumes "\<And>n. \<not> markerFound w ((Dir w ^^ n) cur) \<and> \<not> rootReached parts ((Dir w ^^ n) cur)"
  shows "searchProjectDirectory w parts cur = None"
proof (cases "searchProjectDirectory w parts cur")
  case None
  then show ?thesis .
next
  case (Some r)
  then show ?thesis using search_returns_stop [OF Some] assms by blast
qed


subsection \<open>The walk, for the locator\<close>

lemma locator_found:
  assumes "markerFound w (ancestor w n)"
    and "\<And>m. m < n \<Longrightarrow> \<not> markerFound w (ancestor w m) \<and> \<not> atRoot w (ancestor w m)"
  shows "GetProjectDirectory w = Some (Inr (ancestor w n))"
  unfolding GetProjectDirectory_def ancestor_def
  by (rule search_found) (use assms in \<open>simp_all add: ancestor_def atRoot_def\<close>)

lemma locator_not_found:
  assumes "atRoot w (ancestor w n)"
    and "\<not> markerFound w (ancestor w n)"
    and "\<And>m. m < n \<Longrightarrow> \<not> markerFound w (ancestor w m) \<and> \<not> atRoot w (ancestor w m)"
  shows "GetProjectDirectory w = Some (Inl NoProjectConfigFound)"
  unfolding GetProjectDirectory_def
  by (rule search_not_found [where n = n]) (use assms in \<open>simp_all add: ancestor_def atRoot_def\<close>)

lemma locator_returns_stop:
  assumes "GetProjectDirectory w = Some r"
  shows "\<exists>n. markerFound w (ancestor w n) \<or> atRoot w (ancestor w n)"
  using search_returns_stop [of w _ "WorkingDirectory w" r] assms
  by (simp add: GetProjectDirectory_def ancestor_def atRoot_def)

lemma locator_diverges:
  assumes "\<And>n. \<not> markerFound w (ancestor w n) \<and> \<not> atRoot w (ancestor w n)"
  shows "GetProjectDirectory w = None"
  unfolding GetProjectDirectory_def
  by (rule search_diverges) (use assms in \<open>simp add: ancestor_def atRoot_def\<close>)

lemma first_stop:
  assumes "markerFound w (ancestor w k) \<or> atRoot w (ancestor w k)"
  shows "\<exists>n. (markerFound w (ancestor w n) \<or> atRoot w (ancestor w n)) \<and>
             (\<forall>m<n. \<not> markerFound w (ancestor w m) \<and> \<not> atRoot w (ancestor w m))"
proof -
  define P where "P i = (markerFound w (ancestor w i) \<or> atRoot w (ancestor w i))" for i
  have "P k" using assms by (simp add: P_def)
  then have "P (LEAST i. P i)" by (rule LeastI)
  moreover have "\<forall>m<(LEAST i. P i). \<not> P m"
    using not_less_Least by blast
  ultimately have "\<exists>n. P n \<and> (\<forall>m<n. \<not> P m)" by blast
  then show ?thesis by (simp add: P_def)
qed

lemma locator_result:
  assumes "GetProjectDirectory w = Some r"
  shows "\<exists>n. (\<forall>m<n. \<not> markerFound w (ancestor w m) \<and> \<not> atRoot w (ancestor w m)) \<and>
             (markerFound w (ancestor w n) \<and> r = Inr (ancestor w n)
              \<or> \<not> markerFound w (ancestor w n) \<and> atRoot w (ancestor w n)
                  \<and> r = Inl NoProjectConfigFound)"
proof -
  obtain k where "markerFound w (ancestor w k) \<or> atRoot w (ancestor w k)"
    using locator_returns_stop [OF assms] by blast
  then obtain n where stop: "markerFound w (ancestor w n) \<or> atRoot w (ancestor w n)"
    and before: "\<forall>m<n. \<not> markerFound w (ancestor w m) \<and> \<not> atRoot w (ancestor w m)"
    using first_stop by blast
  show ?thesis
  proof (cases "markerFound w (ancestor w n)")
    case True
    then have "GetProjectDirectory w = Some (Inr (ancestor w n))"
      using before by (intro locator_found) simp_all
    then have "r = Inr (ancestor w n)" using assms by simp
    then show ?thesis using before True by blast
  next
    case False
    then have "GetProjectDirectory w = Some (Inl NoProjectConfigFound)"
      using stop before by (intro locator_not_found [of w n]) simp_all
    then have "r = Inl NoProjectConfigFound" using assms by simp
    then show ?thesis using before False stop by blast
  qed
qed

text \<open>
  C4. The locator returns a directory \<open>d\<close> exactly when \<open>d\<close> is the nearest directory on the
  walk upwards from the working directory (the start itself is step 0) that holds the
  marker file, the walk not having been stopped at a root below it: every directory
  nearer to the start holds no marker. A farther ancestor that also holds the marker is
  never returned.
\<close>

theorem locator_nearest_ancestor:
  "GetProjectDirectory w = Some (Inr d) \<longleftrightarrow>
     (\<exists>n. d = ancestor w n \<and> markerFound w (ancestor w n) \<and>
          (\<forall>m<n. \<not> markerFound w (ancestor w m) \<and> \<not> atRoot w (ancestor w m)))"
proof
  assume "GetProjectDirectory w = Some (Inr d)"
  then obtain n where "\<forall>m<n. \<not> markerFound w (ancestor w m) \<and> \<not> atRoot w (ancestor w m)"
    and "markerFound w (ancestor w n) \<and> Inr d = (Inr (ancestor w n) :: error + string)
         \<or> \<not> markerFound w (ancestor w n) \<and> atRoot w (ancestor w n)
             \<and> Inr d = (Inl NoProjectConfigFound :: error + string)"
    using locator_result by blast
  then have "d = ancestor w n \<and> markerFound w (ancestor w n) \<and>
          (\<forall>m<n. \<not> markerFound w (ancestor w m) \<and> \<not> atRoot w (ancestor w m))"
    by simp
  then show "\<exists>n. d = ancestor w n \<and> markerFound w (ancestor w n) \<and>
          (\<forall>m<n. \<not> markerFound w (ancestor w m) \<and> \<not> atRoot w (ancestor w m))" ..
next
  assume "\<exists>n. d = ancestor w n \<and> markerFound w (ancestor w n) \<and>
          (\<forall>m<n. \<not> markerFound w (ancestor w m) \<and> \<not> atRoot w (ancestor w m))"
  then obtain n where "d = ancestor w n" "markerFound w (ancestor w n)"
    "\<forall>m<n. \<not> markerFound w (ancestor w m) \<and> \<not> atRoot w (ancestor w m)"
    by blast
  then show "GetProjectDirectory w = Some (Inr d)"
    using locator_found [of w n] by simp
qed

lemma locator_not_found_iff:
  "GetProjectDirectory w = Some (Inl e) \<longleftrightarrow>
     e = NoProjectConfigFound \<and>
     (\<exists>n. atRoot w (ancestor w n) \<and> \<not> markerFound w (ancestor w n) \<and>
          (\<forall>m<n. \<not> markerFound w (ancestor w m) \<and> \<not> atRoot w (ancestor w m)))"
proof
  assume "GetProjectDirectory w = Some (Inl e)"
  then obtain n where "\<forall>m<n. \<not> markerFound w (ancestor w m) \<and> \<not> atRoot w (ancestor w m)"
    and "markerFound w (ancestor w n) \<and> Inl e = (Inr (ancestor w n) :: error + string)
         \<or> \<not> markerFound w (ancestor w n) \<and> atRoot w (ancestor w n)
             \<and> Inl e = (Inl NoProjectConfigFound :: error + string)"
    using locator_result by blast
  then have "e = NoProjectConfigFound \<and> atRoot w (ancestor w n) \<and> \<not> markerFound w (ancestor w n) \<and>
          (\<forall>m<n. \<not> markerFound w (ancestor w m) \<and> \<not> atRoot w (ancestor w m))"
    by simp
  then show "e = NoProjectConfigFound \<and>
     (\<exists>n. atRoot w (ancestor w n) \<and> \<not> markerFound w (ancestor w n) \<and>
          (\<forall>m<n. \<not> markerFound w (ancestor w m) \<and> \<not> atRoot w (ancestor w m)))"
    by blast
next
  assume "e = NoProjectConfigFound \<and>
     (\<exists>n. atRoot w (ancestor w n) \<and> \<not> markerFound w (ancestor w n) \<and>
          (\<forall>m<n. \<not> markerFound w (ancestor w m) \<and> \<not> atRoot w (ancestor w m)))"
  then obtain n where "e = NoProjectConfigFound" "atRoot w (ancestor w n)" "\<not> markerFound w (ancestor w n)"
    "\<forall>m<n. \<not> markerFound w (ancestor w m) \<and> \<not> atRoot w (ancestor w m)"
    by blast
  then show "GetProjectDirectory w = Some (Inl e)"
    using locator_not_found [of w n] by simp
qed

lemma locator_never_returns_iff:
  "GetProjectDirectory w = None \<longleftrightarrow>
     (\<forall>n. \<not> markerFound w (ancestor w n) \<and> \<not> atRoot w (ancestor w n))"
proof
  assume none: "GetProjectDirectory w = None"
  show "\<forall>n. \<not> markerFound w (ancestor w n) \<and> \<not> atRoot w (ancestor w n)"
  proof (rule ccontr)
    assume "\<not> (\<forall>n. \<not> markerFound w (ancestor w n) \<and> \<not> atRoot w (ancestor w n))"
    then obtain k where "markerFound w (ancestor w k) \<or> atRoot w (ancestor w k)" by blast
    then obtain n where stop: "markerFound w (ancestor w n) \<or> atRoot w (ancestor w n)"
      and before: "\<forall>m<n. \<not> markerFound w (ancestor w m) \<and> \<not> atRoot w (ancestor w m)"
      using first_stop by blast
    have "GetProjectDirectory w \<noteq> None"
    proof (cases "markerFound w (ancestor w n)")
      case True
      then have "GetProjectDirectory w = Some (Inr (ancestor w n))"
        using before by (intro locator_found) simp_all
      then show ?thesis by simp
    next
      case False
      then have "GetProjectDirectory w = Some (Inl NoProjectConfigFound)"
        using stop before by (intro locator_not_found [of w n]) simp_all
      then show ?thesis by simp
    qed
    then show False using none by simp
  qed
next
  assume "\<forall>n. \<not> markerFound w (ancestor w n) \<and> \<not> atRoot w (ancestor w n)"
  then show "GetProjectDirectory w = None"
    by (intro locator_diverges) simp
qed

lemmas path_eval = unixDir_def unixJoin_def unixClean_def isRooted_def

lemma example_join: 
  "unixJoin ''/p/q'' ''/.envcli.yml'' = ''/p/q/.envcli.yml''"
  "unixJoin ''/p'' ''/.envcli.yml'' = ''/p/.envcli.yml''"
  "unixJoin ''/'' ''/.envcli.yml'' = ''/.envcli.yml''"
  by (simp_all add: path_eval)

lemma example_dir:
  "unixDir ''/p/q'' = ''/p''" "unixDir ''/p'' = ''/''" "unixDir ''/'' = ''/''"
  by (simp_all add: path_eval)

lemma example_ancestors:
  "ancestor exampleWorld 0 = ''/p/q''"
  "ancestor exampleWorld (Suc 0) = ''/p''"
  "ancestor exampleWorld (Suc (Suc 0)) = ''/''"
  by (simp_all add: ancestor_def exampleWorld_def example_dir)

lemma example_markers:
  "\<not> markerFound exampleWorld ''/p/q''"
  "markerFound exampleWorld ''/p''"
  "markerFound exampleWorld ''/''"
  by (simp_all add: markerFound_def exampleWorld_def example_join)

lemma example_not_root: "\<not> atRoot exampleWorld ''/p/q''"
  by (simp add: atRoot_def rootReached_def exampleWorld_def)

lemma example_project_directory: "GetProjectDirectory exampleWorld = Some (Inr ''/p'')"
  using locator_found [of exampleWorld "Suc 0"]
  by (simp add: example_ancestors example_markers example_not_root)

text \<open>
  In the example both \<^verbatim>\<open>/p\<close> and \<^verbatim>\<open>/\<close> hold a marker; from \<^verbatim>\<open>/p/q\<close> the locator returns
  \<^verbatim>\<open>/p\<close>.
\<close>

theorem locator_nearest_ancestor_witness:
  "GetProjectDirectory exampleWorld = Some (Inr ''/p'')
   \<and> ancestor exampleWorld 1 = ''/p'' \<and> markerFound exampleWorld (ancestor exampleWorld 1)
   \<and> ancestor exampleWorld 2 = ''/'' \<and> markerFound exampleWorld (ancestor exampleWorld 2)
   \<and> \<not> markerFound exampleWorld (ancestor exampleWorld 0)
   \<and> \<not> atRoot exampleWorld (ancestor exampleWorld 0)"
proof -
  have "\<exists>n. ''/p'' = ancestor exampleWorld n \<and> markerFound exampleWorld (ancestor exampleWorld n) \<and>
          (\<forall>m<n. \<not> markerFound exampleWorld (ancestor exampleWorld m)
                 \<and> \<not> atRoot exampleWorld (ancestor exampleWorld m))"
    by (rule exI [of _ "Suc 0"]) (simp add: example_ancestors example_markers example_not_root)
  then have "GetProjectDirectory exampleWorld = Some (Inr ''/p'')"
    using locator_nearest_ancestor [of exampleWorld "''/p''"] by simp
  then show ?thesis
    by (simp add: example_ancestors example_markers example_not_root numeral_2_eq_2)
qed

subsection \<open>The walk where the separator is a slash\<close>

text \<open>
  A directory that is its own parent, holds no marker and is none of the two strings the
  loop compares with, is never left. With \<^verbatim>\<open>filepath.Dir\<close> as it is where the separator
  is a slash, the parent of a rooted path other than \<^verbatim>\<open>/\<close> is rooted and shorter, so
  the walk from a rooted working directory reaches \<^verbatim>\<open>/\<close> and the locator returns.
\<close>

lemma walk_stuck:
  assumes "Dir w cur = cur" and "\<not> markerFound w cur" and "\<not> rootReached parts cur"
  shows "searchProjectDirectory w parts cur = None"
proof (rule search_diverges)
  fix n
  have "(Dir w ^^ n) cur = cur"
    using assms(1) by (induction n) simp_all
  then show "\<not> markerFound w ((Dir w ^^ n) cur) \<and> \<not> rootReached parts ((Dir w ^^ n) cur)"
    using assms(2,3) by simp
qed

lemma weight_Split: "(\<Sum>e\<leftarrow>Split s sep. Suc (length e)) = Suc (length s)"
proof (induction s)
  case Nil
  show ?case by simp
next
  case (Cons c cs)
  obtain p ps where split: "Split cs sep = p # ps"
    using Split_not_Nil [of cs sep] by (cases "Split cs sep") auto
  show ?case using Cons split by simp
qed

lemma weight_cleanElements:
  "(\<Sum>e\<leftarrow>cleanElements rooted out es. Suc (length e)) \<le>
     (\<Sum>e\<leftarrow>out. Suc (length e)) + (\<Sum>e\<leftarrow>es. Suc (length e))"
proof (induction es arbitrary: out)
  case Nil
  show ?case by (simp add: rev_map [symmetric] del: rev_map)
next
  case (Cons e es)
  show ?case
  proof (cases out)
    case Nil
    then show ?thesis
      using Cons [of "[]"] Cons [of "[''..'']"] Cons [of "[e]"] by auto
  next
    case (Cons seen kept)
    then show ?thesis
      using Cons.IH [of out] Cons.IH [of "''..'' # out"] Cons.IH [of kept] Cons.IH [of "e # out"]
      by auto
  qed
qed

lemma length_joinElements: "length (joinElements es) = (\<Sum>e\<leftarrow>es. Suc (length e)) - 1"
  by (induction es rule: joinElements.induct) simp_all

lemma Split_snoc_separator: "Split (s @ [sep]) sep = Split s sep @ [[]]"
proof (induction s)
  case Nil
  show ?case by simp
next
  case (Cons c cs)
  obtain p ps where split: "Split cs sep = p # ps"
    using Split_not_Nil [of cs sep] by (cases "Split cs sep") auto
  show ?case using Cons split by simp
qed

lemma cleanElements_snoc_empty: "cleanElements rooted out (es @ [[]]) = cleanElements rooted out es"
proof (cases rooted)
  case True
  have "cleanElements True out (es @ [[]]) = cleanElements True out es"
    by (induction es arbitrary: out) (simp_all split: list.splits)
  then show ?thesis using True by simp
next
  case False
  have "cleanElements False out (es @ [[]]) = cleanElements False out es"
    by (induction es arbitrary: out) (simp_all split: list.splits)
  then show ?thesis using False by simp
qed

lemma unixClean_rooted:
  "unixClean (CHR ''/'' # r) = CHR ''/'' # joinElements (cleanElements True [] (Split r (CHR ''/'')))"
  by (simp add: unixClean_def isRooted_def)

lemma length_unixClean_rooted: "length (unixClean (CHR ''/'' # r)) \<le> Suc (length r)"
proof -
  have "(\<Sum>e\<leftarrow>cleanElements True [] (Split r (CHR ''/'')). Suc (length e)) \<le> Suc (length r)"
    using weight_cleanElements [of True "[]" "Split r (CHR ''/'')"] by (simp add: weight_Split)
  then show ?thesis
    by (simp add: unixClean_rooted length_joinElements)
qed

lemma length_unixClean_trailing:
  "length (unixClean (CHR ''/'' # r @ ''/'')) \<le> Suc (length r)"
proof -
  have "(\<Sum>e\<leftarrow>cleanElements True [] (Split r (CHR ''/'')). Suc (length e)) \<le> Suc (length r)"
    using weight_cleanElements [of True "[]" "Split r (CHR ''/'')"] by (simp add: weight_Split)
  then show ?thesis
    by (simp add: unixClean_rooted length_joinElements Split_snoc_separator cleanElements_snoc_empty)
qed

lemma unixDir_rooted:
  "unixDir (CHR ''/'' # r) = unixClean (CHR ''/'' # rev (dropWhile (\<lambda>c. c \<noteq> CHR ''/'') (rev r)))"
  by (simp add: unixDir_def dropWhile_append3)

lemma isRooted_unixDir: "isRooted path \<Longrightarrow> isRooted (unixDir path)"
  by (cases path) (simp_all add: isRooted_def unixDir_rooted unixClean_rooted)

lemma length_unixDir:
  assumes "isRooted path" and "path \<noteq> ''/''"
  shows "length (unixDir path) < length path"
proof -
  obtain r where path: "path = CHR ''/'' # r" and r: "r \<noteq> []"
    using assms by (cases path) (auto simp: isRooted_def)
  show ?thesis
  proof (cases "last r = CHR ''/''")
    case True
    then obtain r' where r': "r = r' @ ''/''"
      using r by (metis append_butlast_last_id)
    then have "unixDir path = unixClean (CHR ''/'' # r' @ ''/'')"
      by (simp add: path unixDir_rooted)
    then show ?thesis
      using length_unixClean_trailing [of r'] by (simp add: path r')
  next
    case False
    then have "dropWhile (\<lambda>c. c \<noteq> CHR ''/'') (rev r) = dropWhile (\<lambda>c. c \<noteq> CHR ''/'') (tl (rev r))"
      using r by (cases "rev r") (auto simp: last_rev)
    then have "length (dropWhile (\<lambda>c. c \<noteq> CHR ''/'') (rev r)) \<le> length (tl (rev r))"
      using length_dropWhile_le [of "\<lambda>c. c \<noteq> CHR ''/''" "tl (rev r)"] by simp
    then have "length (rev (dropWhile (\<lambda>c. c \<noteq> CHR ''/'') (rev r))) < length r"
      using r by (cases r) simp_all
    then show ?thesis
      using length_unixClean_rooted [of "rev (dropWhile (\<lambda>c. c \<noteq> CHR ''/'') (rev r))"]
      by (simp add: path unixDir_rooted)
  qed
qed

lemma unix_walk_reaches_root: "isRooted path \<Longrightarrow> \<exists>n. (unixDir ^^ n) path = ''/''"
proof (induction path rule: length_induct)
  case (1 path)
  show ?case
  proof (cases "path = ''/''")
    case True
    then have "(unixDir ^^ 0) path = ''/''" by simp
    then show ?thesis by blast
  next
    case False
    then have "length (unixDir path) < length path" and "isRooted (unixDir path)"
      using 1(2) by (simp_all add: length_unixDir isRooted_unixDir)
    then obtain n where "(unixDir ^^ n) (unixDir path) = ''/''"
      using 1(1) by blast
    then have "(unixDir ^^ Suc n) path = ''/''"
      by (simp add: funpow_swap1)
    then show ?thesis by blast
  qed
qed

lemma unix_locator_returns:
  assumes "Dir w = unixDir" and "isRooted (WorkingDirectory w)"
  shows "\<exists>r. GetProjectDirectory w = Some r"
proof -
  obtain n where "ancestor w n = ''/''"
    using unix_walk_reaches_root [OF assms(2)] by (auto simp: ancestor_def assms(1))
  then have "atRoot w (ancestor w n)"
    by (simp add: atRoot_def rootReached_def)
  then have "GetProjectDirectory w \<noteq> None"
    by (auto simp: locator_never_returns_iff)
  then show ?thesis by auto
qed

lemma unix_locator_not_found:
  assumes "Dir w = unixDir" and "isRooted (WorkingDirectory w)"
    and "\<forall>n. \<not> markerFound w (ancestor w n)"
  shows "GetProjectDirectory w = Some (Inl NoProjectConfigFound)"
proof -
  obtain r where r: "GetProjectDirectory w = Some r"
    using unix_locator_returns [OF assms(1,2)] by blast
  then obtain n where "markerFound w (ancestor w n) \<and> r = Inr (ancestor w n)
      \<or> \<not> markerFound w (ancestor w n) \<and> atRoot w (ancestor w n) \<and> r = Inl NoProjectConfigFound"
    using locator_result by blast
  then show ?thesis
    using r assms(3) by simp
qed

subsection \<open>The share\<close>

lemma unc_ancestor: "ancestor uncWorld n = (if n = 0 then uncStart else uncShare)"
  by (induction n) (simp_all add: ancestor_def uncWorld_def)

lemma unc_no_marker: "\<not> markerFound uncWorld d"
  by (simp add: markerFound_def uncWorld_def)

lemma unc_not_root: "\<not> atRoot uncWorld uncStart" "\<not> atRoot uncWorld uncShare"
  by (simp_all add: atRoot_def rootReached_def hd_Split uncWorld_def uncStart_def uncShare_def)

text \<open>
  C5. The walk tests the current directory against \<^verbatim>\<open>directoryParts[0]+"\\"\<close> and
  against \<^verbatim>\<open>"/"\<close>, and never against its own parent. Where the separator is a slash
  that is enough: from a rooted working directory without markers the locator returns
  not-found (lemma \<open>unix_locator_not_found\<close>). On the share no directory holds a marker,
  the parent of \<^verbatim>\<open>\\host\share\\<close> is \<^verbatim>\<open>\\host\share\\<close> itself and neither test holds
  there, so the locator, and with it the resolution of any command, never returns.
\<close>

theorem unc_walk_never_returns:
  "GetProjectDirectory uncWorld = None
   \<and> Dir uncWorld uncShare = uncShare
   \<and> GetCommandConfiguration uncWorld commandName currentDirectory customIncludes = None"
proof -
  have "GetProjectDirectory uncWorld = None"
    by (rule locator_diverges) (simp add: unc_ancestor unc_no_marker unc_not_root)
  then show ?thesis
    by (simp add: GetCommandConfiguration_def LoadPropertyConfig_def LoadPropertyConfigFile_def
        uncWorld_def)
qed

section \<open>Loading, merging and searching\<close>

subsection \<open>Loading\<close>

lemma LoadProjectConfig_error: "snd (LoadProjectConfig w configFile) = None"
  by (simp add: LoadProjectConfig_def)

lemma LoadPropertyConfigFile_error: "snd (LoadPropertyConfigFile w configFile) = None"
  by (simp add: LoadPropertyConfigFile_def)

lemma LoadPropertyConfig_pair: "LoadPropertyConfig w = (fst (LoadPropertyConfig w), None)"
  by (simp add: LoadPropertyConfig_def LoadPropertyConfigFile_def)

subsection \<open>Merging\<close>

lemma loadConfigurationFiles_Nil: "loadConfigurationFiles w [] = \<lparr>Images = []\<rparr>"
  by (simp add: loadConfigurationFiles_def)

lemma loadConfigurationFiles_snoc:
  "loadConfigurationFiles w (configFiles @ [configFile]) =
     MergeConfigurations (loadConfigurationFiles w configFiles) (fst (LoadProjectConfig w configFile))"
  by (simp add: loadConfigurationFiles_def)

lemma loaded_entries:
  "map (\<lambda>image. image\<lparr>Scope := s\<rparr>) (Images (loadConfigurationFiles w configFiles)) =
     map (\<lambda>image. image\<lparr>Scope := s\<rparr>)
       (concat (map (\<lambda>configFile. Images (fst (LoadProjectConfig w configFile))) configFiles))"
proof (induction configFiles rule: rev_induct)
  case Nil
  show ?case by (simp add: loadConfigurationFiles_Nil)
next
  case (snoc configFile configFiles)
  have "map (\<lambda>image. image\<lparr>Scope := s\<rparr>) (Images (loadConfigurationFiles w (configFiles @ [configFile]))) =
        map (\<lambda>image. image\<lparr>Scope := s\<rparr>) (Images (loadConfigurationFiles w configFiles))
        @ map (\<lambda>image. image\<lparr>Scope := s\<rparr>) (Images (fst (LoadProjectConfig w configFile)))"
    by (simp add: loadConfigurationFiles_snoc MergeConfigurations_def comp_def)
  then show ?case using snoc.IH by simp
qed

lemma loaded_scopes:
  "Images (loadConfigurationFiles w (earlier @ [lastFile])) =
     map (\<lambda>image. image\<lparr>Scope := ''Project''\<rparr>)
       (concat (map (\<lambda>configFile. Images (fst (LoadProjectConfig w configFile))) earlier))
     @ map (\<lambda>image. image\<lparr>Scope := ''Global''\<rparr>) (Images (fst (LoadProjectConfig w lastFile)))"
  by (simp add: loadConfigurationFiles_snoc MergeConfigurations_def loaded_entries)

subsection \<open>Searching\<close>

lemma providesCommand_iff: "providesCommand provided commandName \<longleftrightarrow> commandName \<in> set provided"
  by (induction provided) auto

lemma searchCommandDefinition_find:
  "searchCommandDefinition images commandName =
     (case find (\<lambda>element. commandName \<in> set (Provides element)) images of
        Some element \<Rightarrow> Inr element
      | None \<Rightarrow> Inl (NoConfigurationForCommand commandName))"
  by (induction images) (simp_all add: providesCommand_iff)

lemma find_map_scope:
  "find (\<lambda>element. commandName \<in> set (Provides element)) (map (\<lambda>image. image\<lparr>Scope := s\<rparr>) images) =
     map_option (\<lambda>image. image\<lparr>Scope := s\<rparr>)
       (find (\<lambda>element. commandName \<in> set (Provides element)) images)"
  by (induction images) simp_all

lemma find_append_Some:
  "find P xs = Some x \<Longrightarrow> find P (xs @ ys) = Some x"
  by (induction xs) (auto split: if_splits)

lemma GetCommandConfiguration_unfold:
  "GetCommandConfiguration w commandName currentDirectory customIncludes =
     (case GetProjectDirectory w of
        None \<Rightarrow> None
      | Some projectDirResult \<Rightarrow>
          Some (searchCommandDefinition
                  (Images (loadConfigurationFiles w
                     (configFileList w (fst (LoadPropertyConfig w)) projectDirResult customIncludes)))
                  commandName))"
  by (subst GetCommandConfiguration_def, subst LoadPropertyConfig_pair) simp

text \<open>
  C1. When the locator finds the project root and the project document declares the
  command, resolution returns the first entry of the project document that provides it,
  tagged \<^verbatim>\<open>Project\<close>, whatever the extra includes and the global document declare (in
  particular when the global document declares the same command).
\<close>

theorem project_entry_wins:
  assumes "GetProjectDirectory w = Some (Inr projectDir)"
    and "find (\<lambda>element. commandName \<in> set (Provides element))
           (Images (fst (LoadProjectConfig w (projectDir @ ''/.envcli.yml'')))) = Some element"
  shows "GetCommandConfiguration w commandName currentDirectory customIncludes =
           Some (Inr (element\<lparr>Scope := ''Project''\<rparr>))"
proof -
  let ?P = "\<lambda>element. commandName \<in> set (Provides element)"
  let ?load = "\<lambda>configFile. Images (fst (LoadProjectConfig w configFile))"
  let ?project = "projectDir @ ''/.envcli.yml''"
  have files: "configFileList w (fst (LoadPropertyConfig w)) (Inr projectDir) customIncludes =
      (?project # customIncludes) @ [globalConfigFile w (fst (LoadPropertyConfig w))]"
    by (simp add: configFileList_def)
  have "find ?P (?load ?project @ concat (map ?load customIncludes)) = Some element"
    using assms(2) by (rule find_append_Some)
  then have "map_option (\<lambda>image. image\<lparr>Scope := ''Project''\<rparr>)
        (find ?P (concat (map ?load (?project # customIncludes)))) =
      Some (element\<lparr>Scope := ''Project''\<rparr>)"
    by simp
  then have "find ?P (map (\<lambda>image. image\<lparr>Scope := ''Project''\<rparr>)
        (concat (map ?load (?project # customIncludes)))) = Some (element\<lparr>Scope := ''Project''\<rparr>)"
    by (simp only: find_map_scope)
  then have "find ?P (Images (loadConfigurationFiles w
        (configFileList w (fst (LoadPropertyConfig w)) (Inr projectDir) customIncludes))) =
      Some (element\<lparr>Scope := ''Project''\<rparr>)"
    unfolding files loaded_scopes by (rule find_append_Some)
  then show ?thesis
    using assms(1) by (simp add: GetCommandConfiguration_unfold searchCommandDefinition_find)
qed

lemma example_no_property_file: "fst (LoadPropertyConfig exampleWorld) = \<lparr>Properties = Map.empty\<rparr>"
  by (simp add: LoadPropertyConfig_def LoadPropertyConfigFile_def propertyConfigPath_def
      defaultConfigurationDirectory_def defaultConfigurationFile_def exampleWorld_def)

lemma example_global_file: 
  "globalConfigFile exampleWorld \<lparr>Properties = Map.empty\<rparr> = ''/x/.envcli.yml''"
  by (simp add: globalConfigFile_def MapGetValueOrDefault_def defaultConfigurationDirectory_def
      exampleWorld_def)

lemma example_documents:
  "LoadProjectConfig exampleWorld ''/p/.envcli.yml'' = (\<lparr>Images = [buildA]\<rparr>, None)"
  "LoadProjectConfig exampleWorld ''/x/.envcli.yml'' = (\<lparr>Images = [buildB]\<rparr>, None)"
  "LoadProjectConfig exampleWorld ''/inc.yml'' = (\<lparr>Images = [lintC]\<rparr>, None)"
  "LoadProjectConfig exampleWorld ''/bad.yml'' = (\<lparr>Images = []\<rparr>, None)"
  "LoadProjectConfig exampleWorld ''/none.yml'' = (\<lparr>Images = []\<rparr>, None)"
  by (simp_all add: LoadProjectConfig_def exampleWorld_def)

text \<open>
  In the example the project document routes \<^verbatim>\<open>build\<close> to image \<^verbatim>\<open>A\<close> and the global
  document routes it to image \<^verbatim>\<open>B\<close>; resolution returns the entry of image \<^verbatim>\<open>A\<close>.
\<close>

theorem project_entry_wins_witness:
  "GetProjectDirectory exampleWorld = Some (Inr ''/p'')
   \<and> find (\<lambda>element. ''build'' \<in> set (Provides element))
        (Images (fst (LoadProjectConfig exampleWorld (''/p'' @ ''/.envcli.yml'')))) = Some buildA
   \<and> find (\<lambda>element. ''build'' \<in> set (Provides element))
        (Images (fst (LoadProjectConfig exampleWorld
           (globalConfigFile exampleWorld (fst (LoadPropertyConfig exampleWorld)))))) = Some buildB
   \<and> GetCommandConfiguration exampleWorld ''build'' ''/p/q'' [] = Some (Inr (buildA\<lparr>Scope := ''Project''\<rparr>))
   \<and> Image (buildA\<lparr>Scope := ''Project''\<rparr>) = ''A'' \<and> Image buildB = ''B''"
proof -
  have located: "GetProjectDirectory exampleWorld = Some (Inr ''/p'')"
    by (rule example_project_directory)
  have declared: "find (\<lambda>element. ''build'' \<in> set (Provides element))
        (Images (fst (LoadProjectConfig exampleWorld (''/p'' @ ''/.envcli.yml'')))) = Some buildA"
    by (simp add: example_documents buildA_def)
  show ?thesis
    using located declared project_entry_wins [OF located declared, of "''/p/q''" "[]"]
    by (simp add: example_no_property_file example_global_file example_documents buildA_def buildB_def)
qed

text \<open>
  What the loop makes of the scopes: every call of \<^verbatim>\<open>MergeConfigurations\<close> tags all entries
  merged so far \<^verbatim>\<open>Project\<close> and the entries of the document just loaded \<^verbatim>\<open>Global\<close>, so
  after the loop only the entries of the document loaded last carry \<^verbatim>\<open>Global\<close>.
\<close>

lemma merged_scopes:
  "Images (loadConfigurationFiles w (configFileList w propConfig projectDirResult customIncludes)) =
     map (\<lambda>image. image\<lparr>Scope := ''Project''\<rparr>)
       (concat (map (\<lambda>configFile. Images (fst (LoadProjectConfig w configFile)))
          ((case projectDirResult of Inr projectDir \<Rightarrow> [projectDir @ ''/.envcli.yml'']
            | Inl projectDirErr \<Rightarrow> []) @ customIncludes)))
     @ map (\<lambda>image. image\<lparr>Scope := ''Global''\<rparr>)
         (Images (fst (LoadProjectConfig w (globalConfigFile w propConfig))))"
proof -
  have "configFileList w propConfig projectDirResult customIncludes =
      ((case projectDirResult of Inr projectDir \<Rightarrow> [projectDir @ ''/.envcli.yml'']
        | Inl projectDirErr \<Rightarrow> []) @ customIncludes) @ [globalConfigFile w propConfig]"
    by (simp add: configFileList_def)
  then show ?thesis by (simp only: loaded_scopes)
qed

text \<open>
  C2. \<^verbatim>\<open>MergeConfigurations\<close> is to keep the origin of an entry in its scope: \<^verbatim>\<open>Project\<close>
  for the entries of its first argument \<^verbatim>\<open>configProject\<close>, \<^verbatim>\<open>Global\<close> for those of its
  second argument \<^verbatim>\<open>configGlobal\<close>. The loop of \<^verbatim>\<open>GetCommandConfiguration\<close> passes the list
  merged so far as the first argument. The entry that the extra include \<^verbatim>\<open>/inc.yml\<close>
  declares is tagged \<^verbatim>\<open>Global\<close> when its document is merged and \<^verbatim>\<open>Project\<close> as soon as
  the next document is merged, with a project document before it and without one, and
  resolution returns it tagged \<^verbatim>\<open>Project\<close>.
\<close>

theorem include_tagged_project:
  "configFileList exampleWorld (fst (LoadPropertyConfig exampleWorld)) (Inr ''/p'') [''/inc.yml'']
     = [''/p/.envcli.yml'', ''/inc.yml'', ''/x/.envcli.yml'']
   \<and> Images (fst (LoadProjectConfig exampleWorld ''/inc.yml'')) = [lintC]
   \<and> Images (loadConfigurationFiles exampleWorld [''/p/.envcli.yml'', ''/inc.yml''])
       = [buildA\<lparr>Scope := ''Project''\<rparr>, lintC\<lparr>Scope := ''Global''\<rparr>]
   \<and> Images (loadConfigurationFiles exampleWorld [''/p/.envcli.yml'', ''/inc.yml'', ''/x/.envcli.yml''])
       = [buildA\<lparr>Scope := ''Project''\<rparr>, lintC\<lparr>Scope := ''Project''\<rparr>,
          buildB\<lparr>Scope := ''Global''\<rparr>]
   \<and> configFileList exampleWorld (fst (LoadPropertyConfig exampleWorld)) (Inl NoProjectConfigFound)
         [''/inc.yml'']
       = [''/inc.yml'', ''/x/.envcli.yml'']
   \<and> Images (loadConfigurationFiles exampleWorld [''/inc.yml'', ''/x/.envcli.yml''])
       = [lintC\<lparr>Scope := ''Project''\<rparr>, buildB\<lparr>Scope := ''Global''\<rparr>]
   \<and> GetCommandConfiguration exampleWorld ''lint'' ''/p/q'' [''/inc.yml'']
       = Some (Inr (lintC\<lparr>Scope := ''Project''\<rparr>))
   \<and> Scope (lintC\<lparr>Scope := ''Project''\<rparr>) \<noteq> ''Global''"
  by (simp add: GetCommandConfiguration_unfold example_project_directory example_no_property_file
      example_global_file configFileList_def loadConfigurationFiles_def MergeConfigurations_def
      example_documents buildA_def buildB_def lintC_def)

subsection \<open>The two matching loops\<close>

lemma searchCommandDefinition_Inr:
  "searchCommandDefinition images commandName = Inr element \<longleftrightarrow>
     find (\<lambda>element. commandName \<in> set (Provides element)) images = Some element"
  by (simp add: searchCommandDefinition_find split: option.splits)

lemma searchCommandDefinition_first:
  "searchCommandDefinition images commandName = Inr element \<longleftrightarrow>
     (\<exists>i<length images. images ! i = element \<and> commandName \<in> set (Provides element) \<and>
        (\<forall>j<i. commandName \<notin> set (Provides (images ! j))))"
  unfolding searchCommandDefinition_Inr find_Some_iff by blast

lemma searchCommandDefinition_none:
  "searchCommandDefinition images commandName = Inl e \<longleftrightarrow>
     e = NoConfigurationForCommand commandName \<and>
     (\<forall>element \<in> set images. commandName \<notin> set (Provides element))"
proof (cases "find (\<lambda>element. commandName \<in> set (Provides element)) images")
  case None
  then show ?thesis
    by (simp add: searchCommandDefinition_find) (auto simp: find_None_iff)
next
  case (Some element)
  then have "element \<in> set images \<and> commandName \<in> set (Provides element)"
    by (auto simp: find_Some_iff)
  then show ?thesis
    using Some by (auto simp: searchCommandDefinition_find)
qed

lemma runMatchProvided_fold:
  "foldl (runMatchProvided commandName element) target provided =
     (if commandName \<in> set provided
      then \<lparr>dockerImage = Image element, dockerImageTag = Tag element,
            projectDirectory = Directory element, commandShell = Shell element\<rparr>
      else target)"
  by (induction provided arbitrary: target) (auto simp: runMatchProvided_def)

lemma runMatchCommands_snoc:
  "runMatchCommands (commands @ [element]) commandName =
     (if commandName \<in> set (Provides element)
      then \<lparr>dockerImage = Image element, dockerImageTag = Tag element,
            projectDirectory = Directory element, commandShell = Shell element\<rparr>
      else runMatchCommands commands commandName)"
  by (simp add: runMatchCommands_def runMatchProvided_fold)

lemma runMatchCommands_last:
  assumes "commandName \<in> set (Provides element)"
    and "\<forall>later \<in> set after. commandName \<notin> set (Provides later)"
  shows "runMatchCommands (before @ element # after) commandName =
     \<lparr>dockerImage = Image element, dockerImageTag = Tag element,
      projectDirectory = Directory element, commandShell = Shell element\<rparr>"
  using assms(2)
proof (induction after rule: rev_induct)
  case Nil
  show ?case using assms(1) by (simp add: runMatchCommands_snoc)
next
  case (snoc later after)
  have "runMatchCommands ((before @ element # after) @ [later]) commandName =
      runMatchCommands (before @ element # after) commandName"
    using snoc.prems by (subst runMatchCommands_snoc) simp
  then show ?case using snoc by simp
qed

text \<open>
  C3. \<^verbatim>\<open>GetCommandConfiguration\<close> returns at the first entry that provides the command
  (lemma \<open>searchCommandDefinition_first\<close>; the comparison is equality of strings). The
  loop of the \<^verbatim>\<open>run\<close> action in \<^verbatim>\<open>app.go\<close> makes the same comparison but goes on after a
  match, so the last entry that provides the command sets the target (lemma
  \<open>runMatchCommands_last\<close>). With two entries that both provide \<^verbatim>\<open>build\<close> the first loop
  answers with the entry of image \<^verbatim>\<open>A\<close>, the second with image \<^verbatim>\<open>B\<close>.
\<close>

theorem run_action_takes_last_match:
  "searchCommandDefinition [buildA, buildB] ''build'' = Inr buildA
   \<and> runResolve [buildA, buildB] ''build'' =
       Some \<lparr>dockerImage = Image buildB, dockerImageTag = Tag buildB,
             projectDirectory = Directory buildB, commandShell = Shell buildB\<rparr>
   \<and> Image buildA = ''A'' \<and> Image buildB = ''B''"
  by (simp add: runResolve_def runMatchCommands_def runMatchProvided_def buildA_def buildB_def)

subsection \<open>The property store\<close>

lemma load_after_save:
  "snd (SavePropertyConfig w cfg) = None \<Longrightarrow>
     LoadPropertyConfig (fst (SavePropertyConfig w cfg)) = (cfg, None)
     \<and> loadsCleanly (fst (SavePropertyConfig w cfg))"
  by (simp add: SavePropertyConfig_def SavePropertyConfigFile_def LoadPropertyConfig_def
      LoadPropertyConfigFile_def loadsCleanly_def propertyConfigPath_def
      defaultConfigurationDirectory_def split: option.splits write_result.splits)

lemma set_not_allowed:
  "\<not> InArray varName validConfigurationOptions \<Longrightarrow> SetPropertyConfigEntry w varName varValue = w"
  by (simp add: SetPropertyConfigEntry_def)

lemma set_saved:
  assumes "InArray varName validConfigurationOptions" and "savedBy w varName varValue"
  shows "fst (LoadPropertyConfig (SetPropertyConfigEntry w varName varValue)) =
           (fst (LoadPropertyConfig w))
             \<lparr>Properties := (Properties (fst (LoadPropertyConfig w)))(varName \<mapsto> varValue)\<rparr>"
    and "loadsCleanly (SetPropertyConfigEntry w varName varValue)"
  using assms load_after_save [of w "(fst (LoadPropertyConfig w))
      \<lparr>Properties := (Properties (fst (LoadPropertyConfig w)))(varName \<mapsto> varValue)\<rparr>"]
  by (simp_all add: SetPropertyConfigEntry_def savedBy_def Let_def)

lemma set_not_saved:
  assumes "\<not> savedBy w varName varValue" and "fileIntact w varName varValue"
  shows "SetPropertyConfigEntry w varName varValue = w"
  using assms
  by (simp add: SetPropertyConfigEntry_def savedBy_def fileIntact_def Let_def SavePropertyConfig_def
      SavePropertyConfigFile_def split: option.splits write_result.splits)

lemma savedBy_fileIntact: "savedBy w varName varValue \<Longrightarrow> fileIntact w varName varValue"
  by (simp add: savedBy_def fileIntact_def Let_def SavePropertyConfig_def
      SavePropertyConfigFile_def split: option.splits write_result.splits)

lemma unset_is_set: "UnsetPropertyConfigEntry w varName = SetPropertyConfigEntry w varName []"
  by (simp add: UnsetPropertyConfigEntry_def SetPropertyConfigEntry_def)

text \<open>
  C6, as the code has it. For a key of the allow-list, \<^verbatim>\<open>get\<close> right after
  \<^verbatim>\<open>set(key, value)\<close> returns the value when the save inside \<^verbatim>\<open>set\<close> succeeded; the error
  of a save that failed is dropped. For a key outside the allow-list \<^verbatim>\<open>set\<close> changes
  nothing and \<^verbatim>\<open>get\<close> returns the empty string, in every state of the store.
\<close>

theorem set_then_get:
  "(InArray varName validConfigurationOptions \<longrightarrow> savedBy w varName varValue \<longrightarrow>
      GetPropertyConfigEntry (SetPropertyConfigEntry w varName varValue) varName = varValue)
   \<and> (\<not> InArray varName validConfigurationOptions \<longrightarrow>
        SetPropertyConfigEntry w varName varValue = w \<and> GetPropertyConfigEntry w' varName = [])"
  by (simp add: GetPropertyConfigEntry_def set_saved set_not_allowed mapIndex_def Let_def)

lemmas store_eval = SetPropertyConfigEntry_def UnsetPropertyConfigEntry_def GetPropertyConfigEntry_def
  SavePropertyConfig_def SavePropertyConfigFile_def LoadPropertyConfig_def LoadPropertyConfigFile_def
  propertyConfigPath_def defaultConfigurationDirectory_def defaultConfigurationFile_def
  InArray_def validConfigurationOptions_def mapIndex_def savedBy_def Let_def

theorem set_then_get_witness:
  "InArray ''http-proxy'' validConfigurationOptions
   \<and> savedBy exampleWorld ''http-proxy'' ''proxy''
   \<and> GetPropertyConfigEntry (SetPropertyConfigEntry exampleWorld ''http-proxy'' ''proxy'') ''http-proxy''
       = ''proxy''
   \<and> \<not> InArray ''HttpProxy'' validConfigurationOptions
   \<and> SetPropertyConfigEntry exampleWorld ''HttpProxy'' ''proxy'' = exampleWorld
   \<and> GetPropertyConfigEntry (SetPropertyConfigEntry exampleWorld ''http-proxy'' ''proxy'') ''HttpProxy'' = []"
proof -
  have allowed: "InArray ''http-proxy'' validConfigurationOptions"
    by (simp add: InArray_def validConfigurationOptions_def)
  have saved: "savedBy exampleWorld ''http-proxy'' ''proxy''"
    by (simp add: store_eval exampleWorld_def)
  have other: "\<not> InArray ''HttpProxy'' validConfigurationOptions"
    by (simp add: InArray_def validConfigurationOptions_def)
  show ?thesis
    using allowed saved other
      set_then_get [of "''http-proxy''" exampleWorld "''proxy''"]
      set_then_get [of "''HttpProxy''" exampleWorld "''proxy''"
        "SetPropertyConfigEntry exampleWorld ''http-proxy'' ''proxy''"]
    by simp
qed

text \<open>
  Where the property file cannot be written, \<^verbatim>\<open>get\<close> after \<^verbatim>\<open>set\<close> does not return the
  value.
\<close>

theorem set_then_get_counterexample:
  "InArray ''http-proxy'' validConfigurationOptions
   \<and> GetPropertyConfigEntry (SetPropertyConfigEntry readOnlyWorld ''http-proxy'' ''proxy'') ''http-proxy''
       \<noteq> ''proxy''"
  by (simp add: store_eval readOnlyWorld_def exampleWorld_def)

text \<open>
  C7, as the code has it. \<^verbatim>\<open>unset(key)\<close> is \<^verbatim>\<open>set(key, "")\<close> in every state and for every
  key. For a key of the allow-list, when the save succeeded, \<^verbatim>\<open>get\<close> then returns the
  empty string and the key is still in the stored mapping, with the empty string as its
  value.
\<close>

theorem unset_blanks:
  "UnsetPropertyConfigEntry w varName = SetPropertyConfigEntry w varName []
   \<and> (InArray varName validConfigurationOptions \<longrightarrow> savedBy w varName [] \<longrightarrow>
        GetPropertyConfigEntry (UnsetPropertyConfigEntry w varName) varName = []
        \<and> Properties (fst (LoadPropertyConfig (UnsetPropertyConfigEntry w varName))) varName = Some [])"
  by (simp add: unset_is_set GetPropertyConfigEntry_def set_saved mapIndex_def Let_def)

lemma example_after_set:
  "fst (LoadPropertyConfig (SetPropertyConfigEntry exampleWorld ''http-proxy'' ''proxy'')) =
     \<lparr>Properties = [''http-proxy'' \<mapsto> ''proxy'']\<rparr>"
  by (simp add: store_eval exampleWorld_def)

lemma example_after_set_saved:
  "savedBy (SetPropertyConfigEntry exampleWorld ''http-proxy'' ''proxy'') varName varValue"
  by (simp add: store_eval exampleWorld_def)

theorem unset_blanks_witness:
  "InArray ''http-proxy'' validConfigurationOptions
   \<and> savedBy (SetPropertyConfigEntry exampleWorld ''http-proxy'' ''proxy'') ''http-proxy'' []
   \<and> GetPropertyConfigEntry (SetPropertyConfigEntry exampleWorld ''http-proxy'' ''proxy'') ''http-proxy''
       = ''proxy''
   \<and> GetPropertyConfigEntry
        (UnsetPropertyConfigEntry (SetPropertyConfigEntry exampleWorld ''http-proxy'' ''proxy'')
           ''http-proxy'') ''http-proxy'' = []
   \<and> Properties (fst (LoadPropertyConfig
        (UnsetPropertyConfigEntry (SetPropertyConfigEntry exampleWorld ''http-proxy'' ''proxy'')
           ''http-proxy''))) ''http-proxy'' = Some []"
proof -
  have allowed: "InArray ''http-proxy'' validConfigurationOptions"
    by (simp add: InArray_def validConfigurationOptions_def)
  have saved: "savedBy (SetPropertyConfigEntry exampleWorld ''http-proxy'' ''proxy'') ''http-proxy'' []"
    by (rule example_after_set_saved)
  have before: "GetPropertyConfigEntry (SetPropertyConfigEntry exampleWorld ''http-proxy'' ''proxy'')
      ''http-proxy'' = ''proxy''"
    using allowed by (simp add: GetPropertyConfigEntry_def example_after_set mapIndex_def)
  have after: "GetPropertyConfigEntry
        (UnsetPropertyConfigEntry (SetPropertyConfigEntry exampleWorld ''http-proxy'' ''proxy'')
           ''http-proxy'') ''http-proxy'' = []
   \<and> Properties (fst (LoadPropertyConfig
        (UnsetPropertyConfigEntry (SetPropertyConfigEntry exampleWorld ''http-proxy'' ''proxy'')
           ''http-proxy''))) ''http-proxy'' = Some []"
    using unset_blanks [of "SetPropertyConfigEntry exampleWorld ''http-proxy'' ''proxy''" "''http-proxy''"]
      allowed saved by blast
  show ?thesis
    using allowed saved before after by blast
qed

text \<open>
  Where the property file can no longer be written, \<^verbatim>\<open>get\<close> after \<^verbatim>\<open>unset\<close> still returns
  the value set before.
\<close>

theorem unset_blanks_counterexample:
  "InArray ''http-proxy'' validConfigurationOptions
   \<and> GetPropertyConfigEntry staleWorld ''http-proxy'' = ''proxy''
   \<and> GetPropertyConfigEntry (UnsetPropertyConfigEntry staleWorld ''http-proxy'') ''http-proxy''
       = ''proxy''"
  by (simp add: store_eval staleWorld_def exampleWorld_def)

text \<open>
  C9, as the code has it. For a key of the allow-list, when the property file is absent
  or loads without an error, and the save inside \<^verbatim>\<open>SetPropertyConfigEntry(varName,
  varValue)\<close> does not fail after the file was opened, the stored mapping afterwards is
  the mapping loaded before with \<^verbatim>\<open>varName\<close> set to \<^verbatim>\<open>varValue\<close> when the save succeeded,
  and the mapping loaded before when it failed: every other key keeps its value, none is
  added and none is dropped, \<^verbatim>\<open>get\<close> of every other key returns what it returned before,
  and the file still loads without an error.
\<close>

theorem set_keeps_other_keys:
  assumes "InArray varName validConfigurationOptions"
    and "loadsCleanly w"
    and "fileIntact w varName varValue"
    and "other \<noteq> varName"
  shows "Properties (fst (LoadPropertyConfig (SetPropertyConfigEntry w varName varValue))) =
           (if savedBy w varName varValue
            then (Properties (fst (LoadPropertyConfig w)))(varName \<mapsto> varValue)
            else Properties (fst (LoadPropertyConfig w)))
         \<and> Properties (fst (LoadPropertyConfig (SetPropertyConfigEntry w varName varValue))) other =
             Properties (fst (LoadPropertyConfig w)) other
         \<and> GetPropertyConfigEntry (SetPropertyConfigEntry w varName varValue) other =
             GetPropertyConfigEntry w other
         \<and> loadsCleanly (SetPropertyConfigEntry w varName varValue)"
proof (cases "savedBy w varName varValue")
  case True
  then show ?thesis
    using assms(1,4) by (simp add: GetPropertyConfigEntry_def set_saved Let_def mapIndex_def)
next
  case False
  then have "SetPropertyConfigEntry w varName varValue = w"
    using assms(3) by (rule set_not_saved)
  then show ?thesis
    using False assms(2) by simp
qed

lemma example_after_two_sets:
  "Properties (fst (LoadPropertyConfig
        (SetPropertyConfigEntry (SetPropertyConfigEntry exampleWorld ''http-proxy'' ''proxy'')
           ''cache-path'' ''/tmp''))) = [''http-proxy'' \<mapsto> ''proxy'', ''cache-path'' \<mapsto> ''/tmp'']"
  by (subst set_saved(1))
     (simp_all add: example_after_set example_after_set_saved InArray_def validConfigurationOptions_def)

text \<open>
  After \<^verbatim>\<open>http-proxy\<close> was set, setting \<^verbatim>\<open>cache-path\<close> leaves it as it is.
\<close>

theorem set_keeps_other_keys_witness:
  "InArray ''cache-path'' validConfigurationOptions
   \<and> loadsCleanly (SetPropertyConfigEntry exampleWorld ''http-proxy'' ''proxy'')
   \<and> fileIntact (SetPropertyConfigEntry exampleWorld ''http-proxy'' ''proxy'') ''cache-path'' ''/tmp''
   \<and> ''http-proxy'' \<noteq> ''cache-path''
   \<and> GetPropertyConfigEntry (SetPropertyConfigEntry exampleWorld ''http-proxy'' ''proxy'') ''http-proxy''
       = ''proxy''
   \<and> GetPropertyConfigEntry
        (SetPropertyConfigEntry (SetPropertyConfigEntry exampleWorld ''http-proxy'' ''proxy'')
           ''cache-path'' ''/tmp'') ''http-proxy'' = ''proxy''
   \<and> Properties (fst (LoadPropertyConfig
        (SetPropertyConfigEntry (SetPropertyConfigEntry exampleWorld ''http-proxy'' ''proxy'')
           ''cache-path'' ''/tmp''))) = [''http-proxy'' \<mapsto> ''proxy'', ''cache-path'' \<mapsto> ''/tmp'']"
proof -
  have distinct: "''http-proxy'' \<noteq> ''cache-path''"
    by simp
  have allowed: "InArray ''cache-path'' validConfigurationOptions"
    "InArray ''http-proxy'' validConfigurationOptions"
    by (simp_all add: InArray_def validConfigurationOptions_def)
  have clean: "loadsCleanly (SetPropertyConfigEntry exampleWorld ''http-proxy'' ''proxy'')"
    by (simp add: store_eval loadsCleanly_def exampleWorld_def)
  have intact: "fileIntact (SetPropertyConfigEntry exampleWorld ''http-proxy'' ''proxy'')
      ''cache-path'' ''/tmp''"
    using example_after_set_saved by (rule savedBy_fileIntact)
  have before: "GetPropertyConfigEntry (SetPropertyConfigEntry exampleWorld ''http-proxy'' ''proxy'')
      ''http-proxy'' = ''proxy''"
    using allowed by (simp add: GetPropertyConfigEntry_def example_after_set mapIndex_def)
  have kept: "GetPropertyConfigEntry
        (SetPropertyConfigEntry (SetPropertyConfigEntry exampleWorld ''http-proxy'' ''proxy'')
           ''cache-path'' ''/tmp'') ''http-proxy'' = ''proxy''"
    using set_keeps_other_keys [OF allowed(1) clean intact distinct] before
    by simp
  show ?thesis
    using distinct allowed clean intact before kept example_after_two_sets by blast
qed

text \<open>
  With the disk full the write inside \<^verbatim>\<open>set\<close> fails after the file was truncated, the
  error is dropped, and \<^verbatim>\<open>http-proxy\<close>, which was stored, is gone.
\<close>

theorem set_keeps_other_keys_counterexample:
  "InArray ''cache-path'' validConfigurationOptions
   \<and> ''http-proxy'' \<noteq> ''cache-path''
   \<and> loadsCleanly fullDiskWorld
   \<and> Properties (fst (LoadPropertyConfig fullDiskWorld)) ''http-proxy'' = Some ''proxy''
   \<and> GetPropertyConfigEntry fullDiskWorld ''http-proxy'' = ''proxy''
   \<and> Properties (fst (LoadPropertyConfig
         (SetPropertyConfigEntry fullDiskWorld ''cache-path'' ''/tmp''))) ''http-proxy'' = None
   \<and> GetPropertyConfigEntry (SetPropertyConfigEntry fullDiskWorld ''cache-path'' ''/tmp'')
         ''http-proxy'' = []"
  by (simp add: store_eval loadsCleanly_def fullDiskWorld_def exampleWorld_def)

text \<open>
  C8. A configuration file that does not exist loads as the empty document, without an
  error. A file that exists contributes whatever the loader left in the record, and the
  loader's error is dropped. The merged list holds, in the order of the candidates, the
  entries each candidate loaded (up to the scope tag), so no candidate keeps the ones
  after it from being loaded and merged; and resolution goes on to the search with that
  list whenever the locator returns.
\<close>

theorem load_tolerates_missing_and_malformed:
  "(Stat w configFile = StatNotExist \<longrightarrow> LoadProjectConfig w configFile = (\<lparr>Images = []\<rparr>, None))
   \<and> (Stat w configFile \<noteq> StatNotExist \<longrightarrow>
        LoadProjectConfig w configFile = (fst (configorLoadProject w configFile), None))
   \<and> map (\<lambda>image. image\<lparr>Scope := []\<rparr>) (Images (loadConfigurationFiles w configFiles)) =
       concat (map (\<lambda>configFile. map (\<lambda>image. image\<lparr>Scope := []\<rparr>)
                                   (Images (fst (LoadProjectConfig w configFile)))) configFiles)
   \<and> GetCommandConfiguration w commandName currentDirectory customIncludes =
       (case GetProjectDirectory w of
          None \<Rightarrow> None
        | Some projectDirResult \<Rightarrow>
            Some (searchCommandDefinition
                    (Images (loadConfigurationFiles w
                       (configFileList w (fst (LoadPropertyConfig w)) projectDirResult customIncludes)))
                    commandName))"
proof -
  have "map (\<lambda>image. image\<lparr>Scope := []\<rparr>) (Images (loadConfigurationFiles w configFiles)) =
       concat (map (\<lambda>configFile. map (\<lambda>image. image\<lparr>Scope := []\<rparr>)
                                   (Images (fst (LoadProjectConfig w configFile)))) configFiles)"
    by (simp add: loaded_entries map_concat comp_def)
  moreover have "(Stat w configFile = StatNotExist \<longrightarrow> LoadProjectConfig w configFile = (\<lparr>Images = []\<rparr>, None))
   \<and> (Stat w configFile \<noteq> StatNotExist \<longrightarrow>
        LoadProjectConfig w configFile = (fst (configorLoadProject w configFile), None))"
    by (simp add: LoadProjectConfig_def)
  ultimately show ?thesis
    using GetCommandConfiguration_unfold [of w commandName currentDirectory customIncludes]
    by simp
qed

lemma example_malformed:
  "Stat exampleWorld ''/bad.yml'' = StatOk"
  "snd (configorLoadProject exampleWorld ''/bad.yml'') = Some (LibraryError ''cannot unmarshal'')"
  "Stat exampleWorld ''/none.yml'' = StatNotExist"
  by (simp_all add: exampleWorld_def)

lemmas resolve_eval = GetCommandConfiguration_unfold example_project_directory
  example_no_property_file example_global_file configFileList_def loadConfigurationFiles_def
  MergeConfigurations_def example_documents buildA_def buildB_def lintC_def

theorem load_tolerates_missing_and_malformed_witness:
  "Stat exampleWorld ''/none.yml'' = StatNotExist
   \<and> LoadProjectConfig exampleWorld ''/none.yml'' = (\<lparr>Images = []\<rparr>, None)
   \<and> Stat exampleWorld ''/bad.yml'' \<noteq> StatNotExist
   \<and> snd (configorLoadProject exampleWorld ''/bad.yml'') = Some (LibraryError ''cannot unmarshal'')
   \<and> LoadProjectConfig exampleWorld ''/bad.yml'' = (\<lparr>Images = []\<rparr>, None)
   \<and> GetCommandConfiguration exampleWorld ''lint'' ''/p/q'' [''/none.yml'', ''/bad.yml'', ''/inc.yml'']
       = Some (Inr (lintC\<lparr>Scope := ''Project''\<rparr>))
   \<and> GetCommandConfiguration exampleWorld ''build'' ''/p/q'' [''/bad.yml'']
       = Some (Inr (buildA\<lparr>Scope := ''Project''\<rparr>))"
proof -
  note tolerant = load_tolerates_missing_and_malformed
  have missing: "Stat exampleWorld ''/none.yml'' = StatNotExist"
    and present: "Stat exampleWorld ''/bad.yml'' \<noteq> StatNotExist"
    and malformed: "snd (configorLoadProject exampleWorld ''/bad.yml'') = Some (LibraryError ''cannot unmarshal'')"
    by (simp_all add: exampleWorld_def)
  have none: "LoadProjectConfig exampleWorld ''/none.yml'' = (\<lparr>Images = []\<rparr>, None)"
    using tolerant [of exampleWorld "''/none.yml''"] missing by blast
  have "LoadProjectConfig exampleWorld ''/bad.yml'' =
      (fst (configorLoadProject exampleWorld ''/bad.yml''), None)"
    using tolerant [of exampleWorld "''/bad.yml''"] present by blast
  then have bad: "LoadProjectConfig exampleWorld ''/bad.yml'' = (\<lparr>Images = []\<rparr>, None)"
    by (simp add: exampleWorld_def)
  have lint: "GetCommandConfiguration exampleWorld ''lint'' ''/p/q'' [''/none.yml'', ''/bad.yml'', ''/inc.yml'']
       = Some (Inr (lintC\<lparr>Scope := ''Project''\<rparr>))"
    by (simp add: resolve_eval)
  have build: "GetCommandConfiguration exampleWorld ''build'' ''/p/q'' [''/bad.yml'']
       = Some (Inr (buildA\<lparr>Scope := ''Project''\<rparr>))"
    by (simp add: resolve_eval)
  show ?thesis
    using missing present malformed none bad lint build by blast
qed

text \<open>
  C10. \<^verbatim>\<open>LoadProjectConfig\<close>, \<^verbatim>\<open>LoadPropertyConfigFile\<close> and \<^verbatim>\<open>LoadPropertyConfig\<close> return
  a nil error for every path, and every error that \<^verbatim>\<open>GetCommandConfiguration\<close> returns is
  the one of the search, \<^verbatim>\<open>no configuration for command <name> found\<close>: the branch for
  an error of the property store is never taken.
\<close>

theorem only_command_not_found:
  "snd (LoadProjectConfig w configFile) = None
   \<and> snd (LoadPropertyConfigFile w configFile) = None
   \<and> snd (LoadPropertyConfig w) = None
   \<and> (\<forall>e. GetCommandConfiguration w commandName currentDirectory customIncludes = Some (Inl e)
          \<longrightarrow> e = NoConfigurationForCommand commandName)"
  by (auto simp: LoadProjectConfig_error LoadPropertyConfigFile_error LoadPropertyConfig_def
      GetCommandConfiguration_unfold searchCommandDefinition_none split: option.splits)

theorem only_command_not_found_witness:
  "snd (configorLoadProject exampleWorld ''/bad.yml'') = Some (LibraryError ''cannot unmarshal'')
   \<and> snd (LoadProjectConfig exampleWorld ''/bad.yml'') = None
   \<and> (\<exists>e. GetCommandConfiguration exampleWorld ''deploy'' ''/p/q'' [''/bad.yml''] = Some (Inl e))
   \<and> GetCommandConfiguration exampleWorld ''deploy'' ''/p/q'' [''/bad.yml'']
       = Some (Inl (NoConfigurationForCommand ''deploy''))"
proof -
  note only = only_command_not_found [of exampleWorld "''/bad.yml''" "''deploy''" "''/p/q''" "[''/bad.yml'']"]
  have malformed: "snd (configorLoadProject exampleWorld ''/bad.yml'') = Some (LibraryError ''cannot unmarshal'')"
    by (simp add: exampleWorld_def)
  have fails: "\<exists>e. GetCommandConfiguration exampleWorld ''deploy'' ''/p/q'' [''/bad.yml''] = Some (Inl e)"
    by (simp add: resolve_eval)
  then obtain e where e: "GetCommandConfiguration exampleWorld ''deploy'' ''/p/q'' [''/bad.yml''] = Some (Inl e)"
    by blast
  then have "e = NoConfigurationForCommand ''deploy''"
    using only by blast
  then show ?thesis
    using malformed fails e only by blast
qed

end
